theory Spec2Isabelle
  imports Complex_Main
begin

section \<open>Python values used by the program\<close>

text \<open>
  Exceptions are values. The first six are the Python exceptions the modelled code can
  raise (\<open>UnsupportedCriterionError\<close> is the class of \<^verbatim>\<open>filters.py\<close>, the others are
  built in). \<open>ParseError\<close> is named by the specification only: no statement of the
  sources raises it, and no function below returns it.
\<close>

datatype error =
    UnsupportedCriterionError
  | ValueError
  | TypeError
  | KeyError
  | IndexError
  | AttributeError
  | ParseError

text \<open>
  A Python \<^verbatim>\<open>float\<close>, by the value it stands for: not-a-number, an infinity, or a finite
  number. Only comparison is modelled, and Python compares floats by these values: every
  comparison with not-a-number is false.
\<close>

datatype pyfloat = NaN | NegInf | Fin real | PosInf

fun float_le :: "pyfloat \<Rightarrow> pyfloat \<Rightarrow> bool" where
  "float_le NaN _ = False"
| "float_le _ NaN = False"
| "float_le NegInf _ = True"
| "float_le _ PosInf = True"
| "float_le (Fin x) (Fin y) = (x \<le> y)"
| "float_le _ _ = False"

definition float_eq :: "pyfloat \<Rightarrow> pyfloat \<Rightarrow> bool" where
  "float_eq a b = (a \<noteq> NaN \<and> a = b)"

text \<open>
  \<^verbatim>\<open>datetime.date\<close> and \<^verbatim>\<open>datetime.datetime\<close> (naive, as parsing without a time zone
  gives them). Dates compare by year, then month, then day.
\<close>

record date =
  year :: nat
  month :: nat
  day :: nat

record datetime = date +
  hour :: nat
  minute :: nat
  second :: nat
  microsecond :: nat

definition datetime_date :: "datetime \<Rightarrow> date" where
  \<comment> \<open>\<^verbatim>\<open>datetime.date()\<close>\<close>
  "datetime_date t = \<lparr>year = year t, month = month t, day = day t\<rparr>"

definition date_le :: "date \<Rightarrow> date \<Rightarrow> bool" where
  "date_le a b =
     (year a < year b \<or>
      (year a = year b \<and> (month a < month b \<or> (month a = month b \<and> day a \<le> day b))))"

text \<open>
  \<^verbatim>\<open>str(datetime)\<close> for a naive datetime: \<^verbatim>\<open>YYYY-MM-DD HH:MM:SS\<close>, followed by a dot and
  six digits when the microsecond is not zero.
\<close>

definition digit :: "nat \<Rightarrow> char" where
  "digit d = ''0123456789'' ! (d mod 10)"

fun zero_pad :: "nat \<Rightarrow> nat \<Rightarrow> string" where
  "zero_pad 0 n = []"
| "zero_pad (Suc w) n = zero_pad w (n div 10) @ [digit n]"

definition str_datetime :: "datetime \<Rightarrow> string" where
  "str_datetime t =
     zero_pad 4 (year t) @ ''-'' @ zero_pad 2 (month t) @ ''-'' @ zero_pad 2 (day t) @ '' '' @
     zero_pad 2 (hour t) @ '':'' @ zero_pad 2 (minute t) @ '':'' @ zero_pad 2 (second t) @
     (if microsecond t = 0 then [] else ''.'' @ zero_pad 6 (microsecond t))"

text \<open>
  \<^verbatim>\<open>sys.maxsize\<close>, the largest index of the interpreter: two to the power 63, less one, on
  the 64-bit builds.
\<close>

definition maxsize :: int where
  "maxsize = 9223372036854775807"

section \<open>models.py\<close>

text \<open>
  The two classes refer to each other: a \<open>NearEarthObject\<close> holds its approaches and a
  \<open>CloseApproach\<close> holds its object, or \<^verbatim>\<open>None\<close> before the database attaches one.
\<close>

datatype near_earth_object =
  NearEarthObject
    (designation: string)
    (name: "string option")
    (diameter: pyfloat)
    (hazardous: bool)
    (approaches: "close_approach list")
and close_approach =
  CloseApproach
    (ca_designation: string)
    (time: datetime)
    (distance: pyfloat)
    (velocity: pyfloat)
    (neo: "near_earth_object option")

text \<open>
  \<^verbatim>\<open>NearEarthObject.__init__(self, **info)\<close>. \<open>info\<close> is a row of \<^verbatim>\<open>csv.DictReader\<close>: a
  dictionary from column names to strings; a missing key raises \<^verbatim>\<open>KeyError\<close>. The
  built-in \<^verbatim>\<open>float\<close> is the parameter \<open>float_of\<close>, \<open>None\<close> where it raises
  \<^verbatim>\<open>ValueError\<close>. The fields are read in the order of the source.
\<close>

definition NearEarthObject_init ::
  "(string \<Rightarrow> pyfloat option) \<Rightarrow> (string \<rightharpoonup> string) \<Rightarrow> error + near_earth_object" where
  "NearEarthObject_init float_of info =
     (case info ''pdes'' of None \<Rightarrow> Inl KeyError | Some pdes \<Rightarrow>
      case info ''name'' of None \<Rightarrow> Inl KeyError | Some nm \<Rightarrow>
      let name' = (if nm = '''' then None else Some nm) in
      case info ''diameter'' of None \<Rightarrow> Inl KeyError | Some dm \<Rightarrow>
      case (if dm = '''' then Some NaN else float_of dm) of None \<Rightarrow> Inl ValueError | Some diameter' \<Rightarrow>
      case info ''pha'' of None \<Rightarrow> Inl KeyError | Some pha \<Rightarrow>
      let hazardous' = (if pha = ''Y'' then True else False) in
      Inr (NearEarthObject pdes name' diameter' hazardous' []))"

definition fullname :: "near_earth_object \<Rightarrow> string" where
  "fullname self =
     (case name self of
        Some nm \<Rightarrow> designation self @ '' '' @ nm
      | None \<Rightarrow> designation self)"

text \<open>
  \<^verbatim>\<open>CloseApproach.__init__(self, info, neo=None)\<close>. \<open>info\<close> is one entry of the \<^verbatim>\<open>data\<close>
  list: a list of strings read by position, \<^verbatim>\<open>IndexError\<close> when it is too short.
  \<^verbatim>\<open>cd_to_datetime\<close> comes from \<^verbatim>\<open>helpers.py\<close>, which is not among the sources: it is a
  parameter, returning the exception it raises on a string it rejects.
\<close>

definition item :: "'a list \<Rightarrow> nat \<Rightarrow> error + 'a" where
  "item xs i = (if i < length xs then Inr (xs ! i) else Inl IndexError)"

definition CloseApproach_init ::
  "(string \<Rightarrow> error + datetime) \<Rightarrow> (string \<Rightarrow> pyfloat option) \<Rightarrow>
   string list \<Rightarrow> near_earth_object option \<Rightarrow> error + close_approach" where
  "CloseApproach_init cd_to_datetime float_of info neo' =
     (case item info 0 of Inl e \<Rightarrow> Inl e | Inr des \<Rightarrow>
      case item info 3 of Inl e \<Rightarrow> Inl e | Inr cd \<Rightarrow>
      case cd_to_datetime cd of Inl e \<Rightarrow> Inl e | Inr time' \<Rightarrow>
      case item info 4 of Inl e \<Rightarrow> Inl e | Inr au \<Rightarrow>
      case float_of au of None \<Rightarrow> Inl ValueError | Some distance' \<Rightarrow>
      case item info 7 of Inl e \<Rightarrow> Inl e | Inr kms \<Rightarrow>
      case float_of kms of None \<Rightarrow> Inl ValueError | Some velocity' \<Rightarrow>
      Inr (CloseApproach des time' distance' velocity' neo'))"

text \<open>
  Modelled from the spec: \<^verbatim>\<open>datetime_to_str\<close> belongs to \<^verbatim>\<open>helpers.py\<close>, which is not among
  the sources. The specification calls its result human-formatted with the seconds
  omitted, against the full canonical form of the CSV output, and the docstring of
  \<open>time_str\<close> says it leaves out the seconds that the default representation includes:
  \<^verbatim>\<open>YYYY-MM-DD HH:MM\<close>.
\<close>

definition datetime_to_str :: "datetime \<Rightarrow> string" where
  "datetime_to_str t =
     zero_pad 4 (year t) @ ''-'' @ zero_pad 2 (month t) @ ''-'' @ zero_pad 2 (day t) @ '' '' @
     zero_pad 2 (hour t) @ '':'' @ zero_pad 2 (minute t)"

text \<open>\<^verbatim>\<open>CloseApproach.time_str\<close>: the helper applied to the time of the approach.\<close>

definition time_str :: "close_approach \<Rightarrow> string" where
  "time_str self = datetime_to_str (time self)"

section \<open>filters.py\<close>

text \<open>
  The values a filter compares: the attribute its accessor returns and the reference value
  it was built with. \<open>create_filters\<close> documents dates, numbers and booleans.
\<close>

datatype pyvalue = VDate date | VFloat pyfloat | VBool bool

text \<open>\<^verbatim>\<open>operator.eq\<close>, \<^verbatim>\<open>operator.ge\<close>, \<^verbatim>\<open>operator.le\<close>\<close>

datatype cmp_op = Eq | Ge | Le

text \<open>
  A \<^verbatim>\<open>bool\<close> is an \<^verbatim>\<open>int\<close> and compares with a float as 1 or 0. A date equals no
  number, and ordering a date against a number raises \<^verbatim>\<open>TypeError\<close>.
\<close>

fun num_of :: "pyvalue \<Rightarrow> pyfloat option" where
  "num_of (VFloat x) = Some x"
| "num_of (VBool b) = Some (Fin (if b then 1 else 0))"
| "num_of (VDate _) = None"

fun py_eq :: "pyvalue \<Rightarrow> pyvalue \<Rightarrow> bool" where
  "py_eq (VDate a) (VDate b) = (a = b)"
| "py_eq x y =
     (case (num_of x, num_of y) of
        (Some a, Some b) \<Rightarrow> float_eq a b
      | _ \<Rightarrow> False)"

fun py_le :: "pyvalue \<Rightarrow> pyvalue \<Rightarrow> error + bool" where
  "py_le (VDate a) (VDate b) = Inr (date_le a b)"
| "py_le x y =
     (case (num_of x, num_of y) of
        (Some a, Some b) \<Rightarrow> Inr (float_le a b)
      | _ \<Rightarrow> Inl TypeError)"

fun apply_op :: "cmp_op \<Rightarrow> pyvalue \<Rightarrow> pyvalue \<Rightarrow> error + bool" where
  "apply_op Eq x y = Inr (py_eq x y)"
| "apply_op Ge x y = py_le y x"
| "apply_op Le x y = py_le x y"

text \<open>
  The class of a filter object decides which \<open>get\<close> runs. The base class raises; the two
  accessors that go through \<open>approach.neo\<close> raise \<^verbatim>\<open>AttributeError\<close> while it is \<^verbatim>\<open>None\<close>.
\<close>

datatype filter_class =
  AttributeFilter | DateFilter | DistanceFilter | VelocityFilter | DiameterFilter | HazardousFilter

fun get :: "filter_class \<Rightarrow> close_approach \<Rightarrow> error + pyvalue" where
  "get AttributeFilter approach = Inl UnsupportedCriterionError"
| "get DateFilter approach = Inr (VDate (datetime_date (time approach)))"
| "get DistanceFilter approach = Inr (VFloat (distance approach))"
| "get VelocityFilter approach = Inr (VFloat (velocity approach))"
| "get DiameterFilter approach =
     (case neo approach of None \<Rightarrow> Inl AttributeError | Some n \<Rightarrow> Inr (VFloat (diameter n)))"
| "get HazardousFilter approach =
     (case neo approach of None \<Rightarrow> Inl AttributeError | Some n \<Rightarrow> Inr (VBool (hazardous n)))"

record attribute_filter =
  cls :: filter_class
  op :: cmp_op
  value' :: pyvalue

definition new :: "filter_class \<Rightarrow> cmp_op \<Rightarrow> pyvalue \<Rightarrow> attribute_filter" where
  \<comment> \<open>\<^verbatim>\<open>cls(op, value)\<close>: \<^verbatim>\<open>AttributeFilter.__init__\<close>, inherited by every subclass\<close>
  "new c f v = \<lparr>cls = c, op = f, value' = v\<rparr>"

definition call :: "attribute_filter \<Rightarrow> close_approach \<Rightarrow> error + bool" where
  \<comment> \<open>\<^verbatim>\<open>__call__\<close>: \<open>get\<close> runs first, so its exception wins\<close>
  "call self approach =
     (case get (cls self) approach of
        Inl e \<Rightarrow> Inl e
      | Inr x \<Rightarrow> apply_op (op self) x (value' self))"

text \<open>
  \<open>create_filters\<close>: each argument is \<open>None\<close> or a value. The set starts empty and each
  \<^verbatim>\<open>if ... is not None\<close> adds one filter object. Python's set holds objects by identity;
  here two filters are the same element when class, operator and value agree, which no two
  of the ten additions do.
\<close>

definition add_if :: "pyvalue option \<Rightarrow> filter_class \<Rightarrow> cmp_op \<Rightarrow> attribute_filter set \<Rightarrow> attribute_filter set" where
  \<comment> \<open>one \<^verbatim>\<open>if x is not None: filters.add(C(op, x))\<close>\<close>
  "add_if x c f filters = (case x of None \<Rightarrow> filters | Some v \<Rightarrow> insert (new c f v) filters)"

definition create_filters ::
  "pyvalue option \<Rightarrow> pyvalue option \<Rightarrow> pyvalue option \<Rightarrow> pyvalue option \<Rightarrow> pyvalue option \<Rightarrow>
   pyvalue option \<Rightarrow> pyvalue option \<Rightarrow> pyvalue option \<Rightarrow> pyvalue option \<Rightarrow> pyvalue option \<Rightarrow>
   attribute_filter set" where
  "create_filters date' start_date end_date distance_min distance_max
                  velocity_min velocity_max diameter_min diameter_max hazardous' =
     (let filters = {};
          filters = add_if date' DateFilter Eq filters;
          filters = add_if start_date DateFilter Ge filters;
          filters = add_if end_date DateFilter Le filters;
          filters = add_if distance_min DistanceFilter Ge filters;
          filters = add_if distance_max DistanceFilter Le filters;
          filters = add_if velocity_min VelocityFilter Ge filters;
          filters = add_if velocity_max VelocityFilter Le filters;
          filters = add_if diameter_min DiameterFilter Ge filters;
          filters = add_if diameter_max DiameterFilter Le filters;
          filters = add_if hazardous' HazardousFilter Eq filters
      in filters)"

text \<open>
  \<^verbatim>\<open>itertools.islice(iterator, n)\<close>: a stop that is negative or greater than
  \<^verbatim>\<open>sys.maxsize\<close> raises \<^verbatim>\<open>ValueError\<close> when the slice is built; otherwise elements are
  taken one by one until the stop is reached or the iterator ends. An iterator is the
  finite list of the elements it yields.
\<close>

fun islice_run :: "'a list \<Rightarrow> nat \<Rightarrow> 'a list" where
  "islice_run _ 0 = []"
| "islice_run [] (Suc k) = []"
| "islice_run (x # xs) (Suc k) = x # islice_run xs k"

definition islice :: "'a list \<Rightarrow> int \<Rightarrow> error + 'a list" where
  "islice iterator stop =
     (if stop < 0 \<or> maxsize < stop then Inl ValueError
      else Inr (islice_run iterator (nat stop)))"

definition limit :: "'a list \<Rightarrow> int option \<Rightarrow> error + 'a list" where
  "limit iterator n =
     (case n of
        None \<Rightarrow> Inr iterator
      | Some k \<Rightarrow> if k = 0 then Inr iterator else islice iterator k)"

text \<open>
  Modelled from the spec: \<^verbatim>\<open>query\<close> belongs to the database module, which is not among
  the sources. The specification says: iterate the approaches in their load order; an
  approach matches only if every filter in the set evaluates true; an empty filter set
  matches every record; the matches come out in that same order.
\<close>

definition query :: "attribute_filter set \<Rightarrow> close_approach list \<Rightarrow> close_approach list" where
  "query filters approaches' = filter (\<lambda>approach. \<forall>f\<in>filters. call f approach = Inr True) approaches'"

text \<open>
  Two devices for counting the filters: the pair of class and operator that tells the ten
  additions apart, and the additions as a loop over a list of (argument, class, operator).
\<close>

definition key :: "attribute_filter \<Rightarrow> filter_class \<times> cmp_op" where
  "key g = (cls g, op g)"

fun add_all ::
  "(pyvalue option \<times> filter_class \<times> cmp_op) list \<Rightarrow> attribute_filter set \<Rightarrow> attribute_filter set" where
  "add_all [] filters = filters"
| "add_all ((x, c, f) # rest) filters = add_all rest (add_if x c f filters)"

section \<open>extract.py\<close>

text \<open>
  \<open>load_neos\<close>: the argument is the sequence of rows the \<^verbatim>\<open>DictReader\<close> yields. Each row
  is constructed and appended; an exception of the constructor leaves the loop and the
  function, so nothing is returned.
\<close>

fun load_neos_loop ::
  "(string \<Rightarrow> pyfloat option) \<Rightarrow> (string \<rightharpoonup> string) list \<Rightarrow> near_earth_object list \<Rightarrow>
   error + near_earth_object list" where
  "load_neos_loop float_of [] list_of_neo = Inr list_of_neo"
| "load_neos_loop float_of (line # rest) list_of_neo =
     (case NearEarthObject_init float_of line of
        Inl e \<Rightarrow> Inl e
      | Inr neo_instance \<Rightarrow> load_neos_loop float_of rest (list_of_neo @ [neo_instance]))"

definition load_neos ::
  "(string \<Rightarrow> pyfloat option) \<Rightarrow> (string \<rightharpoonup> string) list \<Rightarrow> error + near_earth_object list" where
  "load_neos float_of data_neo = load_neos_loop float_of data_neo []"

text \<open>\<open>load_approaches\<close>: the argument is the list under the key \<^verbatim>\<open>data\<close>.\<close>

fun load_approaches_loop ::
  "(string \<Rightarrow> error + datetime) \<Rightarrow> (string \<Rightarrow> pyfloat option) \<Rightarrow> string list list \<Rightarrow>
   close_approach list \<Rightarrow> error + close_approach list" where
  "load_approaches_loop cd_to_datetime float_of [] list_of_ca = Inr list_of_ca"
| "load_approaches_loop cd_to_datetime float_of (dictionary # rest) list_of_ca =
     (case CloseApproach_init cd_to_datetime float_of dictionary None of
        Inl e \<Rightarrow> Inl e
      | Inr ca_instance \<Rightarrow>
          load_approaches_loop cd_to_datetime float_of rest (list_of_ca @ [ca_instance]))"

definition load_approaches ::
  "(string \<Rightarrow> error + datetime) \<Rightarrow> (string \<Rightarrow> pyfloat option) \<Rightarrow> string list list \<Rightarrow>
   error + close_approach list" where
  "load_approaches cd_to_datetime float_of data_ca =
     load_approaches_loop cd_to_datetime float_of data_ca []"

section \<open>write.py\<close>

text \<open>
  The values \<open>write_to_csv\<close> puts in a row, and what \<^verbatim>\<open>csv.writer\<close> makes of each: \<^verbatim>\<open>None\<close>
  becomes the empty field, a string is written as it is, anything else through \<^verbatim>\<open>str\<close>.
  \<^verbatim>\<open>str\<close> of a float is the parameter \<open>str_float\<close>. A written file is the list of its rows,
  each the list of its fields; quoting and line ends are the library's.
\<close>

datatype csv_value = CNone | CStr string | CBool bool | CFloat pyfloat | CDatetime datetime

fun csv_field :: "(pyfloat \<Rightarrow> string) \<Rightarrow> csv_value \<Rightarrow> string" where
  "csv_field str_float CNone = []"
| "csv_field str_float (CStr s) = s"
| "csv_field str_float (CBool b) = (if b then ''True'' else ''False'')"
| "csv_field str_float (CFloat x) = str_float x"
| "csv_field str_float (CDatetime t) = str_datetime t"

definition writerow :: "(pyfloat \<Rightarrow> string) \<Rightarrow> csv_value list \<Rightarrow> string list" where
  "writerow str_float row = map (csv_field str_float) row"

definition fieldnames :: "string list" where
  "fieldnames = [''datetime_utc'', ''distance_au'', ''velocity_km_s'',
                 ''designation'', ''name'', ''diameter_km'',
                 ''potentially_hazardous'']"

definition str_or_none :: "string option \<Rightarrow> csv_value" where
  \<comment> \<open>an attribute that holds a string or \<^verbatim>\<open>None\<close>, as a row value\<close>
  "str_or_none s = (case s of None \<Rightarrow> CNone | Some v \<Rightarrow> CStr v)"

text \<open>
  \<open>write_to_csv\<close> returns the rows written and the exception that stopped it, if any:
  \<open>approach.neo.designation\<close> raises \<^verbatim>\<open>AttributeError\<close> on an approach without its object,
  after the header and the rows before it were written.
\<close>

fun write_rows ::
  "(pyfloat \<Rightarrow> string) \<Rightarrow> close_approach list \<Rightarrow> string list list \<Rightarrow>
   string list list \<times> error option" where
  "write_rows str_float [] outfile = (outfile, None)"
| "write_rows str_float (approach # rest) outfile =
     (case neo approach of
        None \<Rightarrow> (outfile, Some AttributeError)
      | Some n \<Rightarrow>
          let row = [CDatetime (time approach), CFloat (distance approach),
                     CFloat (velocity approach),
                     CStr (designation n), str_or_none (name n),
                     CFloat (diameter n), CBool (hazardous n)]
          in write_rows str_float rest (outfile @ [writerow str_float row]))"

definition write_to_csv ::
  "(pyfloat \<Rightarrow> string) \<Rightarrow> close_approach list \<Rightarrow> string list list \<times> error option" where
  "write_to_csv str_float results =
     write_rows str_float results [writerow str_float (map CStr fieldnames)]"

text \<open>
  The object \<open>write_to_json\<close> hands to \<^verbatim>\<open>json.dump\<close>, and the document the encoder makes
  of it: \<^verbatim>\<open>None\<close> is \<^verbatim>\<open>null\<close>, a dictionary an object with its keys in order, a list
  an array. The dump happens after the loop, so an exception in the loop writes nothing.
\<close>

datatype pyobj =
  PNone | PBool bool | PFloat pyfloat | PStr string | PList "pyobj list" | PDict "(string \<times> pyobj) list"

datatype json =
  JNull | JBool bool | JNumber pyfloat | JString string | JArray "json list"
  | JObject "(string \<times> json) list"

primrec json_dump :: "pyobj \<Rightarrow> json" where
  "json_dump PNone = JNull"
| "json_dump (PBool b) = JBool b"
| "json_dump (PFloat x) = JNumber x"
| "json_dump (PStr s) = JString s"
| "json_dump (PList xs) = JArray (map json_dump xs)"
| "json_dump (PDict kvs) = JObject (map (map_prod id json_dump) kvs)"

definition py_str_or_none :: "string option \<Rightarrow> pyobj" where
  "py_str_or_none s = (case s of None \<Rightarrow> PNone | Some v \<Rightarrow> PStr v)"

fun dict_list_loop :: "close_approach list \<Rightarrow> pyobj list \<Rightarrow> error + pyobj list" where
  "dict_list_loop [] dict_list = Inr dict_list"
| "dict_list_loop (approach # rest) dict_list =
     (case neo approach of
        None \<Rightarrow> Inl AttributeError
      | Some n \<Rightarrow>
          let dictionary =
                PDict [(''datetime_utc'', PStr (time_str approach)),
                       (''distance_au'', PFloat (distance approach)),
                       (''velocity_km_s'', PFloat (velocity approach)),
                       (''neo'', PDict [(''designation'', PStr (designation n)),
                                        (''name'', py_str_or_none (name n)),
                                        (''diameter_km'', PFloat (diameter n)),
                                        (''potentially_hazardous'', PBool (hazardous n))])]
          in dict_list_loop rest (dict_list @ [dictionary]))"

definition write_to_json :: "close_approach list \<Rightarrow> error + json" where
  "write_to_json results =
     (case dict_list_loop results [] of
        Inl e \<Rightarrow> Inl e
      | Inr dict_list \<Rightarrow> Inr (json_dump (PList dict_list)))"

section \<open>Properties\<close>

subsection \<open>Filters and the limit\<close>

lemma add_if_image: "add_if x c f S = new c f ` set_option x \<union> S"
  by (cases x) (simp_all add: add_if_def)

lemma create_filters_image:
  "create_filters d sd ed dmin dmax vmin vmax dimin dimax hz =
     new DateFilter Eq ` set_option d \<union> new DateFilter Ge ` set_option sd \<union>
     new DateFilter Le ` set_option ed \<union>
     new DistanceFilter Ge ` set_option dmin \<union> new DistanceFilter Le ` set_option dmax \<union>
     new VelocityFilter Ge ` set_option vmin \<union> new VelocityFilter Le ` set_option vmax \<union>
     new DiameterFilter Ge ` set_option dimin \<union> new DiameterFilter Le ` set_option dimax \<union>
     new HazardousFilter Eq ` set_option hz"
  unfolding create_filters_def Let_def add_if_image by (simp add: Un_ac)

lemma add_if_finite: "finite S \<Longrightarrow> finite (add_if x c f S)"
  by (cases x) (simp_all add: add_if_def)

lemma key_add_if: "key ` add_if x c f S \<subseteq> insert (c, f) (key ` S)"
  by (cases x) (auto simp: add_if_def new_def key_def)

lemma add_if_card:
  assumes "finite S" and "(c, f) \<notin> key ` S"
  shows "card (add_if x c f S) = card S + (if x = None then 0 else 1)"
proof (cases x)
  case None
  then show ?thesis by (simp add: add_if_def)
next
  case (Some v)
  have "key (new c f v) = (c, f)" by (simp add: key_def new_def)
  with assms(2) have "new c f v \<notin> S" by (metis imageI)
  with assms(1) Some show ?thesis by (simp add: add_if_def)
qed

lemma add_all_card:
  "finite S \<Longrightarrow> distinct (map snd specs) \<Longrightarrow> key ` S \<inter> set (map snd specs) = {} \<Longrightarrow>
   card (add_all specs S) = card S + length (filter (\<lambda>s. fst s \<noteq> None) specs)"
proof (induction specs arbitrary: S)
  case Nil
  then show ?case by simp
next
  case (Cons s specs)
  obtain x c f where s: "s = (x, c, f)" by (cases s) auto
  have notin: "(c, f) \<notin> key ` S" using Cons.prems(3) s by auto
  have fin: "finite (add_if x c f S)" using Cons.prems(1) by (rule add_if_finite)
  have dis: "distinct (map snd specs)" and fresh: "(c, f) \<notin> set (map snd specs)"
    using Cons.prems(2) s by auto
  have "key ` S \<inter> set (map snd specs) = {}"
    using Cons.prems(3) by auto
  with fresh have "insert (c, f) (key ` S) \<inter> set (map snd specs) = {}"
    by blast
  with key_add_if[of x c f S] have "key ` add_if x c f S \<inter> set (map snd specs) = {}"
    by blast
  from Cons.IH[OF fin dis this] add_if_card[OF Cons.prems(1) notin, of x]
  show ?case by (simp add: s)
qed

lemma create_filters_add_all:
  "create_filters d sd ed dmin dmax vmin vmax dimin dimax hz =
   add_all [(d, DateFilter, Eq), (sd, DateFilter, Ge), (ed, DateFilter, Le),
            (dmin, DistanceFilter, Ge), (dmax, DistanceFilter, Le),
            (vmin, VelocityFilter, Ge), (vmax, VelocityFilter, Le),
            (dimin, DiameterFilter, Ge), (dimax, DiameterFilter, Le),
            (hz, HazardousFilter, Eq)] {}"
  by (simp add: create_filters_def Let_def)

lemma create_filters_card:
  "card (create_filters d sd ed dmin dmax vmin vmax dimin dimax hz) =
   length (filter (\<lambda>x. x \<noteq> None) [d, sd, ed, dmin, dmax, vmin, vmax, dimin, dimax, hz])"
  unfolding create_filters_add_all
  by (subst add_all_card) simp_all


lemma islice_run_take: "islice_run xs k = take k xs"
  by (induction xs k rule: islice_run.induct) simp_all

text \<open>
  Claim C1. For every combination of the ten optional arguments, \<open>create_filters\<close> returns
  exactly one filter for each argument that is not \<open>None\<close> and none for an omitted one: the
  result is the union of the ten optional singletons, its size is the number of supplied
  arguments, and with no argument it is empty. The class and operator are fixed by the
  argument: \<open>date\<close> compares the approach's calendar date with equal, \<open>start_date\<close> with
  greater-or-equal, \<open>end_date\<close> with less-or-equal; the \<open>min\<close> arguments use
  greater-or-equal and the \<open>max\<close> arguments less-or-equal on the distance, the velocity
  and the diameter of the attached object; \<open>hazardous\<close> uses equal on the hazard flag of
  the attached object. The last six conjuncts say what the operators compute on dates,
  floats and booleans.
\<close>

theorem create_filters_one_per_option:
  "create_filters d sd ed dmin dmax vmin vmax dimin dimax hz =
     new DateFilter Eq ` set_option d \<union> new DateFilter Ge ` set_option sd \<union>
     new DateFilter Le ` set_option ed \<union>
     new DistanceFilter Ge ` set_option dmin \<union> new DistanceFilter Le ` set_option dmax \<union>
     new VelocityFilter Ge ` set_option vmin \<union> new VelocityFilter Le ` set_option vmax \<union>
     new DiameterFilter Ge ` set_option dimin \<union> new DiameterFilter Le ` set_option dimax \<union>
     new HazardousFilter Eq ` set_option hz
   \<and> card (create_filters d sd ed dmin dmax vmin vmax dimin dimax hz) =
     length (filter (\<lambda>x. x \<noteq> None) [d, sd, ed, dmin, dmax, vmin, vmax, dimin, dimax, hz])
   \<and> create_filters None None None None None None None None None None = {}
   \<and> call (new DateFilter Eq v) a = apply_op Eq (VDate (datetime_date (time a))) v
   \<and> call (new DateFilter Ge v) a = apply_op Ge (VDate (datetime_date (time a))) v
   \<and> call (new DateFilter Le v) a = apply_op Le (VDate (datetime_date (time a))) v
   \<and> call (new DistanceFilter Ge v) a = apply_op Ge (VFloat (distance a)) v
   \<and> call (new DistanceFilter Le v) a = apply_op Le (VFloat (distance a)) v
   \<and> call (new VelocityFilter Ge v) a = apply_op Ge (VFloat (velocity a)) v
   \<and> call (new VelocityFilter Le v) a = apply_op Le (VFloat (velocity a)) v
   \<and> (neo a = Some n \<longrightarrow>
        call (new DiameterFilter Ge v) a = apply_op Ge (VFloat (diameter n)) v
      \<and> call (new DiameterFilter Le v) a = apply_op Le (VFloat (diameter n)) v
      \<and> call (new HazardousFilter Eq v) a = apply_op Eq (VBool (hazardous n)) v)
   \<and> apply_op Eq (VDate x) (VDate y) = Inr (x = y)
   \<and> apply_op Ge (VDate x) (VDate y) = Inr (date_le y x)
   \<and> apply_op Le (VDate x) (VDate y) = Inr (date_le x y)
   \<and> apply_op Ge (VFloat p) (VFloat q) = Inr (float_le q p)
   \<and> apply_op Le (VFloat p) (VFloat q) = Inr (float_le p q)
   \<and> apply_op Eq (VBool b) (VBool c) = Inr (b = c)"
proof -
  have calls: "\<And>c f. call (new c f v) a = (case get c a of Inl e \<Rightarrow> Inl e | Inr x \<Rightarrow> apply_op f x v)"
    by (simp add: call_def new_def split: sum.split)
  have empty: "create_filters None None None None None None None None None None = {}"
    by (simp add: create_filters_def add_if_def)
  show ?thesis
    apply (intro conjI impI)
    apply (rule create_filters_image)
    apply (rule create_filters_card)
    apply (rule empty)
    apply (simp_all add: calls float_eq_def)
    done
qed

theorem create_filters_one_per_option_witness:
  "neo (CloseApproach ''433'' \<lparr>year = 2020, month = 1, day = 2, hour = 12, minute = 30, second = 0, microsecond = 0\<rparr>
          (Fin (1/2)) (Fin 4) (Some (NearEarthObject ''433'' (Some ''Eros'') (Fin 16) False [])))
     = Some (NearEarthObject ''433'' (Some ''Eros'') (Fin 16) False [])
   \<and> call (new HazardousFilter Eq (VBool False))
        (CloseApproach ''433'' \<lparr>year = 2020, month = 1, day = 2, hour = 12, minute = 30, second = 0, microsecond = 0\<rparr>
          (Fin (1/2)) (Fin 4) (Some (NearEarthObject ''433'' (Some ''Eros'') (Fin 16) False [])))
     = Inr True
   \<and> call (new DiameterFilter Ge (VFloat (Fin 20)))
        (CloseApproach ''433'' \<lparr>year = 2020, month = 1, day = 2, hour = 12, minute = 30, second = 0, microsecond = 0\<rparr>
          (Fin (1/2)) (Fin 4) (Some (NearEarthObject ''433'' (Some ''Eros'') (Fin 16) False [])))
     = Inr False
   \<and> card (create_filters None (Some (VDate \<lparr>year = 2020, month = 1, day = 1\<rparr>)) None
              None (Some (VFloat (Fin (1/4)))) None None None None (Some (VBool False))) = 3"
proof -
  let ?n = "NearEarthObject ''433'' (Some ''Eros'') (Fin 16) False []"
  let ?a = "CloseApproach ''433'' \<lparr>year = 2020, month = 1, day = 2, hour = 12, minute = 30, second = 0, microsecond = 0\<rparr>
          (Fin (1/2)) (Fin 4) (Some ?n)"
  note t1 = create_filters_one_per_option
    [of None "Some (VDate \<lparr>year = 2020, month = 1, day = 1\<rparr>)" None
        None "Some (VFloat (Fin (1/4)))" None None None None "Some (VBool False)"
        "VBool False" ?a ?n]
  note t2 = create_filters_one_per_option
    [of None None None None None None None None None None "VFloat (Fin 20)" ?a ?n]
  have n: "neo ?a = Some ?n" by simp
  have c: "card (create_filters None (Some (VDate \<lparr>year = 2020, month = 1, day = 1\<rparr>)) None
              None (Some (VFloat (Fin (1/4)))) None None None None (Some (VBool False))) = 3"
    using t1 [THEN conjunct2, THEN conjunct1] by simp
  have h: "call (new HazardousFilter Eq (VBool False)) ?a = Inr True"
    using t1 n by (simp add: float_eq_def)
  have d: "call (new DiameterFilter Ge (VFloat (Fin 20))) ?a = Inr False"
    using t2 n by simp
  from n c h d show ?thesis by blast
qed

text \<open>
  Claim C4. Calling a filter of the base class, whose \<open>get\<close> no subclass has overridden,
  on any close approach raises \<open>UnsupportedCriterionError\<close>, whatever its operator and
  reference value: it returns neither a match nor a non-match.
\<close>

theorem unspecialized_filter_raises:
  "call (new AttributeFilter f v) approach = Inl UnsupportedCriterionError
   \<and> call (new AttributeFilter f v) approach \<noteq> Inr True
   \<and> call (new AttributeFilter f v) approach \<noteq> Inr False"
  by (simp add: call_def new_def)

text \<open>
  Claim C2 says that with any positive cap \<open>limit\<close> yields the first elements of the input.
  A cap above \<^verbatim>\<open>sys.maxsize\<close> is a positive integer too, and there \<open>islice\<close> raises
  \<^verbatim>\<open>ValueError\<close>: with the cap two to the power 63 nothing is yielded.
\<close>

theorem limit_above_maxsize_raises:
  "limit [10, 20, 30 :: nat] (Some 9223372036854775808) = Inl ValueError
   \<and> (0::int) < 9223372036854775808
   \<and> limit [10, 20, 30 :: nat] (Some 9223372036854775808) \<noteq> Inr (take 3 [10, 20, 30])"
  by (simp add: limit_def islice_def maxsize_def)

text \<open>
  Claim C2, as amended. With \<open>n\<close> \<open>None\<close> or 0, \<open>limit\<close> returns the input sequence
  unchanged. With a positive \<open>k\<close> that is at most \<^verbatim>\<open>sys.maxsize\<close> it returns the first
  \<open>min k (length xs)\<close> elements of the input in order, at most \<open>k\<close> of them. With a \<open>k\<close>
  above \<^verbatim>\<open>sys.maxsize\<close> it raises \<^verbatim>\<open>ValueError\<close>.
\<close>

theorem limit_first_n:
  "((n = None \<or> n = Some 0) \<longrightarrow> limit xs n = Inr xs)
   \<and> (0 < k \<and> k \<le> maxsize \<longrightarrow>
        (\<exists>ys. limit xs (Some k) = Inr ys \<and> ys = take (nat k) xs
           \<and> length ys = min (nat k) (length xs) \<and> int (length ys) \<le> k
           \<and> (\<forall>i < length ys. ys ! i = xs ! i)))
   \<and> (maxsize < k \<longrightarrow> limit xs (Some k) = Inl ValueError)"
  by (auto simp: limit_def islice_def islice_run_take maxsize_def)

theorem limit_first_n_witness:
  "limit [10, 20, 30, 40, 50 :: nat] (Some 2) = Inr [10, 20]
   \<and> limit [10, 20, 30 :: nat] (Some 0) = Inr [10, 20, 30]
   \<and> limit [10, 20, 30 :: nat] None = Inr [10, 20, 30]
   \<and> limit [10, 20, 30 :: nat] (Some 7) = Inr [10, 20, 30]
   \<and> limit [10, 20, 30 :: nat] (Some 9223372036854775807) = Inr [10, 20, 30]
   \<and> limit [10, 20, 30 :: nat] (Some 9223372036854775809) = Inl ValueError"
proof -
  have a: "limit [10, 20, 30, 40, 50 :: nat] (Some 2) = Inr [10, 20]"
    using limit_first_n [of None "[10, 20, 30, 40, 50 :: nat]" 2]
    by (simp add: maxsize_def)
  have b: "limit [10, 20, 30 :: nat] (Some 0) = Inr [10, 20, 30]"
    using limit_first_n [of "Some 0" "[10, 20, 30 :: nat]" 7] by simp
  have c: "limit [10, 20, 30 :: nat] None = Inr [10, 20, 30]"
    using limit_first_n [of None "[10, 20, 30 :: nat]" 7] by simp
  have d: "limit [10, 20, 30 :: nat] (Some 7) = Inr [10, 20, 30]"
    using limit_first_n [of None "[10, 20, 30 :: nat]" 7]
    by (simp add: maxsize_def)
  have e: "limit [10, 20, 30 :: nat] (Some 9223372036854775807) = Inr [10, 20, 30]"
    using limit_first_n [of None "[10, 20, 30 :: nat]" 9223372036854775807]
    by (simp add: maxsize_def)
  have f: "limit [10, 20, 30 :: nat] (Some 9223372036854775809) = Inl ValueError"
    using limit_first_n [of None "[10, 20, 30 :: nat]" 9223372036854775809]
    by (simp add: maxsize_def)
  from a b c d e f show ?thesis by blast
qed

text \<open>
  Claim C9. With a negative cap, \<open>limit\<close> raises \<open>ValueError\<close> for every input sequence:
  the cap is neither \<open>None\<close> nor 0, and \<open>islice\<close> rejects a negative stop.
\<close>

theorem limit_negative_raises:
  "k < 0 \<Longrightarrow> limit xs (Some k) = Inl ValueError"
  by (simp add: limit_def islice_def)

theorem limit_negative_raises_witness:
  "(-1 :: int) < 0 \<and> limit [10, 20, 30 :: nat] (Some (-1)) = Inl ValueError"
  using limit_negative_raises [of "-1" "[10, 20, 30 :: nat]"] by simp

subsection \<open>Records and loading\<close>

lemma NearEarthObject_init_Inr:
  "NearEarthObject_init float_of info = Inr n \<longleftrightarrow>
     (\<exists>p nm dm d h. info ''pdes'' = Some p \<and> info ''name'' = Some nm \<and> info ''diameter'' = Some dm
        \<and> (if dm = '''' then Some NaN else float_of dm) = Some d \<and> info ''pha'' = Some h
        \<and> n = NearEarthObject p (if nm = '''' then None else Some nm) d (h = ''Y'') [])"
  unfolding NearEarthObject_init_def Let_def
  by (auto split: option.splits)

lemma NearEarthObject_init_pdes:
  "NearEarthObject_init float_of info = Inr n \<Longrightarrow> info ''pdes'' = Some (designation n)"
  unfolding NearEarthObject_init_Inr by auto

lemma load_neos_loop_append:
  "load_neos_loop float_of (pre @ rest) acc =
     (case load_neos_loop float_of pre acc of
        Inl e \<Rightarrow> Inl e
      | Inr acc' \<Rightarrow> load_neos_loop float_of rest acc')"
  by (induction pre arbitrary: acc) (simp_all split: sum.split)

lemma load_approaches_loop_append:
  "load_approaches_loop cd float_of (pre @ rest) acc =
     (case load_approaches_loop cd float_of pre acc of
        Inl e \<Rightarrow> Inl e
      | Inr acc' \<Rightarrow> load_approaches_loop cd float_of rest acc')"
  by (induction pre arbitrary: acc) (simp_all split: sum.split)

lemma load_neos_loop_pdes:
  "load_neos_loop float_of rows acc = Inr neos \<Longrightarrow>
     \<exists>new. neos = acc @ new \<and> map (\<lambda>r. r ''pdes'') rows = map (\<lambda>n. Some (designation n)) new"
proof (induction rows arbitrary: acc)
  case Nil
  then show ?case by simp
next
  case (Cons r rows)
  from Cons.prems obtain n where n: "NearEarthObject_init float_of r = Inr n"
    and rest: "load_neos_loop float_of rows (acc @ [n]) = Inr neos"
    by (auto split: sum.splits)
  from Cons.IH[OF rest] obtain new where new: "neos = (acc @ [n]) @ new"
    "map (\<lambda>r. r ''pdes'') rows = map (\<lambda>n. Some (designation n)) new" by blast
  with NearEarthObject_init_pdes[OF n] show ?case
    by (intro exI[of _ "n # new"]) simp
qed

lemma distinct_map_Some: "distinct (map (\<lambda>n. Some (g n)) xs) = distinct (map g xs)"
proof -
  have "map (\<lambda>n. Some (g n)) xs = map Some (map g xs)" by simp
  then show ?thesis by (simp only: distinct_map) simp
qed

text \<open>
  Claim C7. A \<open>NearEarthObject\<close> built from a row whose name is the empty string has the
  name \<open>None\<close>, not the empty string, and its \<open>fullname\<close> is exactly the designation; built
  from a row with a non-empty name, it keeps the name and its \<open>fullname\<close> is the
  designation, a space and the name. The hypotheses are those under which the constructor
  returns: the four columns are present and the diameter is empty or a number.
\<close>

theorem empty_name_is_none:
  assumes "info ''pdes'' = Some p" and "info ''name'' = Some nm"
    and "info ''diameter'' = Some dm" and "dm = '''' \<or> float_of dm \<noteq> None"
    and "info ''pha'' = Some h"
  shows "\<exists>self. NearEarthObject_init float_of info = Inr self \<and> designation self = p
           \<and> (nm = '''' \<longrightarrow> name self = None \<and> fullname self = p)
           \<and> (nm \<noteq> '''' \<longrightarrow> name self = Some nm \<and> fullname self = p @ '' '' @ nm)"
  using assms unfolding NearEarthObject_init_def Let_def fullname_def
  by (auto split: option.splits)

theorem empty_name_is_none_witness:
  "NearEarthObject_init (map_of [(''16.5'', Fin (33/2))])
      (map_of [(''pdes'', ''433''), (''name'', ''''), (''diameter'', ''16.5''), (''pha'', ''N'')])
     = Inr (NearEarthObject ''433'' None (Fin (33/2)) False [])
   \<and> fullname (NearEarthObject ''433'' None (Fin (33/2)) False []) = ''433''
   \<and> NearEarthObject_init (map_of [(''16.5'', Fin (33/2))])
      (map_of [(''pdes'', ''433''), (''name'', ''Eros''), (''diameter'', ''''), (''pha'', ''Y'')])
     = Inr (NearEarthObject ''433'' (Some ''Eros'') NaN True [])
   \<and> fullname (NearEarthObject ''433'' (Some ''Eros'') NaN True []) = ''433 Eros''"
proof -
  let ?f = "map_of [(''16.5'', Fin (33/2))]"
  let ?i1 = "map_of [(''pdes'', ''433''), (''name'', ''''), (''diameter'', ''16.5''), (''pha'', ''N'')]"
  let ?i2 = "map_of [(''pdes'', ''433''), (''name'', ''Eros''), (''diameter'', ''''), (''pha'', ''Y'')]"
  have a: "NearEarthObject_init ?f ?i1 = Inr (NearEarthObject ''433'' None (Fin (33/2)) False [])"
    by (simp add: NearEarthObject_init_def)
  have b: "NearEarthObject_init ?f ?i2 = Inr (NearEarthObject ''433'' (Some ''Eros'') NaN True [])"
    by (simp add: NearEarthObject_init_def)
  from empty_name_is_none [of ?i1 "''433''" "''''" "''16.5''" ?f "''N''"]
  have c: "fullname (NearEarthObject ''433'' None (Fin (33/2)) False []) = ''433''"
    unfolding a by simp
  from empty_name_is_none [of ?i2 "''433''" "''Eros''" "''''" ?f "''Y''"]
  have d: "fullname (NearEarthObject ''433'' (Some ''Eros'') NaN True []) = ''433 Eros''"
    unfolding b by simp
  from a b c d show ?thesis by blast
qed

text \<open>
  Claim C5 says that any two objects returned by \<open>load_neos\<close> have different designations.
  The loop appends one object per row and never looks at the objects already built, so two
  rows with the same \<open>pdes\<close> give two objects with the same designation.
\<close>

theorem load_neos_duplicate_designation:
  "load_neos (map_of [(''16.5'', Fin (33/2))])
      [map_of [(''pdes'', ''433''), (''name'', ''Eros''), (''diameter'', ''16.5''), (''pha'', ''N'')],
       map_of [(''pdes'', ''433''), (''name'', ''''), (''diameter'', ''''), (''pha'', ''Y'')]]
     = Inr [NearEarthObject ''433'' (Some ''Eros'') (Fin (33/2)) False [],
            NearEarthObject ''433'' None NaN True []]
   \<and> NearEarthObject ''433'' (Some ''Eros'') (Fin (33/2)) False [] \<noteq> NearEarthObject ''433'' None NaN True []
   \<and> designation (NearEarthObject ''433'' (Some ''Eros'') (Fin (33/2)) False [])
     = designation (NearEarthObject ''433'' None NaN True [])"
  by (simp add: load_neos_def NearEarthObject_init_def)

text \<open>
  Claim C5, as amended. When \<open>load_neos\<close> returns, it returns exactly one object per row, in
  row order, whose designation is the \<open>pdes\<close> of its row; the designations of the returned
  objects are pairwise different exactly when the \<open>pdes\<close> values of the rows are.
\<close>

theorem load_neos_one_per_row:
  assumes "load_neos float_of rows = Inr neos"
  shows "length neos = length rows
       \<and> map (\<lambda>r. r ''pdes'') rows = map (\<lambda>n. Some (designation n)) neos
       \<and> (distinct (map designation neos) \<longleftrightarrow> distinct (map (\<lambda>r. r ''pdes'') rows))"
proof -
  from assms load_neos_loop_pdes[of float_of rows "[]" neos]
  have m: "map (\<lambda>r. r ''pdes'') rows = map (\<lambda>n. Some (designation n)) neos"
    by (simp add: load_neos_def)
  then have "length rows = length neos" by (metis length_map)
  with m show ?thesis by (simp add: distinct_map_Some)
qed

theorem load_neos_one_per_row_witness:
  "map designation [NearEarthObject ''433'' (Some ''Eros'') (Fin (33/2)) False [],
                    NearEarthObject ''719'' None NaN True []] = [''433'', ''719'']
   \<and> distinct (map designation [NearEarthObject ''433'' (Some ''Eros'') (Fin (33/2)) False [],
                    NearEarthObject ''719'' None NaN True []])"
proof -
  let ?f = "map_of [(''16.5'', Fin (33/2))]"
  let ?rows = "[map_of [(''pdes'', ''433''), (''name'', ''Eros''), (''diameter'', ''16.5''), (''pha'', ''N'')],
       map_of [(''pdes'', ''719''), (''name'', ''''), (''diameter'', ''''), (''pha'', ''Y'')]]"
  let ?neos = "[NearEarthObject ''433'' (Some ''Eros'') (Fin (33/2)) False [],
                    NearEarthObject ''719'' None NaN True []]"
  have l: "load_neos ?f ?rows = Inr ?neos"
    by (simp add: load_neos_def NearEarthObject_init_def)
  from load_neos_one_per_row [OF l] show ?thesis by simp
qed

text \<open>
  Claim C6 says that a numeric field that is not a number fails with a \<open>ParseError\<close>. The
  sources define and raise no such exception: the failure is the \<^verbatim>\<open>ValueError\<close> of the
  built-in \<^verbatim>\<open>float\<close>, which leaves the loader uncaught.
\<close>

theorem malformed_diameter_is_ValueError:
  "load_neos (map_of [(''16.5'', Fin (33/2))])
      [map_of [(''pdes'', ''433''), (''name'', ''Eros''), (''diameter'', ''16.5''), (''pha'', ''N'')],
       map_of [(''pdes'', ''719''), (''name'', ''Albert''), (''diameter'', ''abc''), (''pha'', ''Y'')]]
     = Inl ValueError
   \<and> Inl ValueError \<noteq> (Inl ParseError :: error + near_earth_object list)"
  by (simp add: load_neos_def NearEarthObject_init_def)

text \<open>
  Claim C6, as amended. A non-empty diameter string that \<^verbatim>\<open>float\<close> rejects makes the
  constructor of \<open>NearEarthObject\<close> raise \<^verbatim>\<open>ValueError\<close>, and so does a distance or a
  velocity string that \<^verbatim>\<open>float\<close> rejects in the constructor of \<open>CloseApproach\<close> (in a
  row that has the columns, resp. an entry long enough whose time parses). An exception of
  the constructor on any row, after rows that load, is the result of \<open>load_neos\<close>, resp.
  \<open>load_approaches\<close>: the load is aborted and no list is returned, whatever rows follow.
\<close>

theorem malformed_number_aborts_load:
  "(info ''pdes'' = Some p \<and> info ''name'' = Some nm \<and> info ''diameter'' = Some dm
      \<and> dm \<noteq> '''' \<and> float_of dm = None
      \<longrightarrow> NearEarthObject_init float_of info = Inl ValueError)
   \<and> (7 < length entry \<and> cd_to_datetime (entry ! 3) = Inr t
      \<and> (float_of (entry ! 4) = None \<or> float_of (entry ! 7) = None)
      \<longrightarrow> CloseApproach_init cd_to_datetime float_of entry None = Inl ValueError)
   \<and> (load_neos float_of pre = Inr ns \<and> NearEarthObject_init float_of bad = Inl e
      \<longrightarrow> load_neos float_of (pre @ bad # post) = Inl e)
   \<and> (load_approaches cd_to_datetime float_of pre' = Inr cs
      \<and> CloseApproach_init cd_to_datetime float_of bad' None = Inl e'
      \<longrightarrow> load_approaches cd_to_datetime float_of (pre' @ bad' # post') = Inl e')"
proof (intro conjI impI)
  assume "info ''pdes'' = Some p \<and> info ''name'' = Some nm \<and> info ''diameter'' = Some dm
      \<and> dm \<noteq> '''' \<and> float_of dm = None"
  then show "NearEarthObject_init float_of info = Inl ValueError"
    by (simp add: NearEarthObject_init_def)
next
  assume "7 < length entry \<and> cd_to_datetime (entry ! 3) = Inr t
      \<and> (float_of (entry ! 4) = None \<or> float_of (entry ! 7) = None)"
  then show "CloseApproach_init cd_to_datetime float_of entry None = Inl ValueError"
    by (auto simp: CloseApproach_init_def item_def split: option.splits)
next
  assume "load_neos float_of pre = Inr ns \<and> NearEarthObject_init float_of bad = Inl e"
  then show "load_neos float_of (pre @ bad # post) = Inl e"
    by (simp add: load_neos_def load_neos_loop_append)
next
  assume "load_approaches cd_to_datetime float_of pre' = Inr cs
      \<and> CloseApproach_init cd_to_datetime float_of bad' None = Inl e'"
  then show "load_approaches cd_to_datetime float_of (pre' @ bad' # post') = Inl e'"
    by (simp add: load_approaches_def load_approaches_loop_append)
qed

theorem malformed_number_aborts_load_witness:
  "NearEarthObject_init (map_of [(''16.5'', Fin (33/2))])
      (map_of [(''pdes'', ''719''), (''name'', ''Albert''), (''diameter'', ''abc''), (''pha'', ''Y'')])
     = Inl ValueError
   \<and> load_neos (map_of [(''16.5'', Fin (33/2))])
      [map_of [(''pdes'', ''433''), (''name'', ''Eros''), (''diameter'', ''16.5''), (''pha'', ''N'')],
       map_of [(''pdes'', ''719''), (''name'', ''Albert''), (''diameter'', ''abc''), (''pha'', ''Y'')],
       map_of [(''pdes'', ''887''), (''name'', ''''), (''diameter'', ''''), (''pha'', ''N'')]]
     = Inl ValueError
   \<and> CloseApproach_init
        (\<lambda>s. if s = ''2020-Jan-01 12:30''
             then Inr \<lparr>year = 2020, month = 1, day = 1, hour = 12, minute = 30, second = 0, microsecond = 0\<rparr>
             else Inl ValueError)
        (map_of [(''16.5'', Fin (33/2))])
        [''433'', ''1'', ''2458850'', ''2020-Jan-01 12:30'', ''16.5'', ''0'', ''0'', ''fast''] None
     = Inl ValueError
   \<and> load_approaches
        (\<lambda>s. if s = ''2020-Jan-01 12:30''
             then Inr \<lparr>year = 2020, month = 1, day = 1, hour = 12, minute = 30, second = 0, microsecond = 0\<rparr>
             else Inl ValueError)
        (map_of [(''16.5'', Fin (33/2))])
        [[''433'', ''1'', ''2458850'', ''2020-Jan-01 12:30'', ''16.5'', ''0'', ''0'', ''16.5''],
         [''433'', ''1'', ''2458850'', ''2020-Jan-01 12:30'', ''16.5'', ''0'', ''0'', ''fast'']]
     = Inl ValueError"
proof -
  let ?f = "map_of [(''16.5'', Fin (33/2 :: real))]"
  let ?t = "\<lparr>year = 2020, month = 1, day = 1, hour = 12, minute = 30, second = 0, microsecond = 0\<rparr>"
  let ?cd = "\<lambda>s. if s = ''2020-Jan-01 12:30'' then Inr ?t else (Inl ValueError :: error + datetime)"
  let ?good = "map_of [(''pdes'', ''433''), (''name'', ''Eros''), (''diameter'', ''16.5''), (''pha'', ''N'')]"
  let ?bad = "map_of [(''pdes'', ''719''), (''name'', ''Albert''), (''diameter'', ''abc''), (''pha'', ''Y'')]"
  let ?last = "map_of [(''pdes'', ''887''), (''name'', ''''), (''diameter'', ''''), (''pha'', ''N'')]"
  let ?ok = "[''433'', ''1'', ''2458850'', ''2020-Jan-01 12:30'', ''16.5'', ''0'', ''0'', ''16.5'']"
  let ?entry = "[''433'', ''1'', ''2458850'', ''2020-Jan-01 12:30'', ''16.5'', ''0'', ''0'', ''fast'']"
  let ?n = "NearEarthObject ''433'' (Some ''Eros'') (Fin (33/2)) False []"
  let ?c = "CloseApproach ''433'' ?t (Fin (33/2)) (Fin (33/2)) None"
  note t = malformed_number_aborts_load
    [where info = ?bad and p = "''719''" and nm = "''Albert''" and dm = "''abc''" and float_of = ?f
       and entry = ?entry and cd_to_datetime = ?cd and t = ?t
       and pre = "[?good]" and ns = "[?n]" and bad = ?bad and e = ValueError and post = "[?last]"
       and pre' = "[?ok]" and cs = "[?c]" and bad' = ?entry and e' = ValueError and post' = "[]"]
  have h1: "?bad ''pdes'' = Some ''719'' \<and> ?bad ''name'' = Some ''Albert'' \<and> ?bad ''diameter'' = Some ''abc''
      \<and> ''abc'' \<noteq> '''' \<and> ?f ''abc'' = None" by simp
  have h2: "7 < length ?entry \<and> ?cd (?entry ! 3) = Inr ?t
      \<and> (?f (?entry ! 4) = None \<or> ?f (?entry ! 7) = None)" by simp
  have a: "NearEarthObject_init ?f ?bad = Inl ValueError"
    using t [THEN conjunct1] h1 by blast
  have b: "CloseApproach_init ?cd ?f ?entry None = Inl ValueError"
    using t [THEN conjunct2, THEN conjunct1] h2 by blast
  have h3: "load_neos ?f [?good] = Inr [?n]"
    by (simp add: load_neos_def NearEarthObject_init_def)
  have h4: "load_approaches ?cd ?f [?ok] = Inr [?c]"
    by (simp add: load_approaches_def CloseApproach_init_def item_def)
  have c: "load_neos ?f ([?good] @ ?bad # [?last]) = Inl ValueError"
    using t [THEN conjunct2, THEN conjunct2, THEN conjunct1] h3 a by blast
  have d: "load_approaches ?cd ?f ([?ok] @ ?entry # []) = Inl ValueError"
    using t [THEN conjunct2, THEN conjunct2, THEN conjunct2] h4 b by blast
  from a b c d show ?thesis by simp
qed

subsection \<open>Writing and querying\<close>

lemma write_rows_joined:
  "\<forall>a\<in>set results. neo a \<noteq> None \<Longrightarrow>
   write_rows str_float results outfile =
     (outfile @ map (\<lambda>a. [str_datetime (time a), str_float (distance a), str_float (velocity a),
                     designation (the (neo a)),
                     (case name (the (neo a)) of None \<Rightarrow> '''' | Some s \<Rightarrow> s),
                     str_float (diameter (the (neo a))),
                     (if hazardous (the (neo a)) then ''True'' else ''False'')]) results, None)"
proof (induction results arbitrary: outfile)
  case Nil
  then show ?case by simp
next
  case (Cons a results)
  then obtain n where n: "neo a = Some n" by auto
  have rest: "\<forall>a\<in>set results. neo a \<noteq> None" using Cons.prems by simp
  show ?case
    by (simp add: n Cons.IH[OF rest] writerow_def str_or_none_def split: option.split)
qed

lemma dict_list_loop_joined:
  "\<forall>a\<in>set results. neo a \<noteq> None \<Longrightarrow>
   dict_list_loop results dict_list =
     Inr (dict_list @ map (\<lambda>a.
        PDict [(''datetime_utc'', PStr (datetime_to_str (time a))),
               (''distance_au'', PFloat (distance a)),
               (''velocity_km_s'', PFloat (velocity a)),
               (''neo'', PDict [(''designation'', PStr (designation (the (neo a)))),
                                (''name'', py_str_or_none (name (the (neo a)))),
                                (''diameter_km'', PFloat (diameter (the (neo a)))),
                                (''potentially_hazardous'', PBool (hazardous (the (neo a))))])]) results)"
proof (induction results arbitrary: dict_list)
  case Nil
  then show ?case by simp
next
  case (Cons a results)
  then obtain n where n: "neo a = Some n" by auto
  have rest: "\<forall>a\<in>set results. neo a \<noteq> None" using Cons.prems by simp
  show ?case
    by (simp add: n Cons.IH[OF rest] time_str_def)
qed

lemma json_dump_name: "json_dump (py_str_or_none s) = (case s of None \<Rightarrow> JNull | Some v \<Rightarrow> JString v)"
  by (simp add: py_str_or_none_def split: option.split)

lemma zero_pad_2: "zero_pad 2 n = [digit (n div 10), digit n]"
proof -
  have "zero_pad (Suc (Suc 0)) n = [digit (n div 10), digit n]" by simp
  then show ?thesis by (simp only: numeral_2_eq_2)
qed

lemma zero_pad_4:
  "zero_pad 4 n = [digit (n div 10 div 10 div 10), digit (n div 10 div 10), digit (n div 10), digit n]"
proof -
  have "zero_pad (Suc (Suc (Suc (Suc 0)))) n =
          [digit (n div 10 div 10 div 10), digit (n div 10 div 10), digit (n div 10), digit n]"
    by simp
  moreover have "(4::nat) = Suc (Suc (Suc (Suc 0)))" by simp
  ultimately show ?thesis by (simp only:)
qed

text \<open>
  Claim C8. For a result sequence whose approaches all carry their object,
  \<open>write_to_csv\<close> finishes without an exception and writes first the header row
  \<^verbatim>\<open>datetime_utc, distance_au, velocity_km_s, designation, name, diameter_km,
  potentially_hazardous\<close>, then one row per approach in the order of the sequence. In a row
  the time is \<^verbatim>\<open>str\<close> of the whole timestamp, seconds included; the distance, velocity
  and diameter are \<^verbatim>\<open>str\<close> of the floats, the designation is the string itself, the hazard
  flag is \<^verbatim>\<open>True\<close> or \<^verbatim>\<open>False\<close>, and a name that is \<open>None\<close> is the empty field.
\<close>

theorem write_to_csv_header_and_rows:
  assumes "\<forall>a\<in>set results. neo a \<noteq> None"
  shows "write_to_csv str_float results =
     ([''datetime_utc'', ''distance_au'', ''velocity_km_s'', ''designation'', ''name'',
       ''diameter_km'', ''potentially_hazardous''] #
      map (\<lambda>a. [str_datetime (time a), str_float (distance a), str_float (velocity a),
                designation (the (neo a)),
                (case name (the (neo a)) of None \<Rightarrow> '''' | Some s \<Rightarrow> s),
                str_float (diameter (the (neo a))),
                (if hazardous (the (neo a)) then ''True'' else ''False'')]) results,
      None)"
  unfolding write_to_csv_def write_rows_joined[OF assms]
  by (simp add: writerow_def fieldnames_def)

theorem write_to_csv_header_and_rows_witness:
  "write_to_csv (\<lambda>x. if x = Fin (1/2) then ''0.5'' else if x = NaN then ''nan'' else ''4.0'')
     [CloseApproach ''433''
        \<lparr>year = 2020, month = 1, day = 2, hour = 12, minute = 30, second = 0, microsecond = 0\<rparr>
        (Fin (1/2)) (Fin 4) (Some (NearEarthObject ''433'' None NaN False []))]
   = ([[''datetime_utc'', ''distance_au'', ''velocity_km_s'', ''designation'', ''name'',
        ''diameter_km'', ''potentially_hazardous''],
       [''2020-01-02 12:30:00'', ''0.5'', ''4.0'', ''433'', '''', ''nan'', ''False'']], None)"
  using write_to_csv_header_and_rows
    [of "[CloseApproach ''433''
        \<lparr>year = 2020, month = 1, day = 2, hour = 12, minute = 30, second = 0, microsecond = 0\<rparr>
        (Fin (1/2)) (Fin 4) (Some (NearEarthObject ''433'' None NaN False []))]"
        "\<lambda>x. if x = Fin (1/2) then ''0.5'' else if x = NaN then ''nan'' else ''4.0''"]
  by (simp add: str_datetime_def zero_pad_2 zero_pad_4 digit_def)

text \<open>
  Claim C10. For a result sequence whose approaches all carry their object,
  \<open>write_to_json\<close> dumps an array with one object per approach, in order. Its
  \<^verbatim>\<open>datetime_utc\<close> is the string \<^verbatim>\<open>YYYY-MM-DD HH:MM\<close> of the time of the approach, and the
  string the CSV row holds for the same time is that string followed by a colon, the two
  digits of the seconds and the microseconds if any: the seconds are left out. Distance,
  velocity, diameter and hazard flag stay a number, a number, a number and a boolean, the
  designation a string; and the \<^verbatim>\<open>name\<close> key of the nested object is \<^verbatim>\<open>null\<close> when the
  name is \<open>None\<close>, where the CSV row has an empty field.
\<close>

theorem write_to_json_null_name:
  assumes "\<forall>a\<in>set results. neo a \<noteq> None"
  shows "write_to_json results =
     Inr (JArray (map (\<lambda>a.
        JObject [(''datetime_utc'',
                    JString (zero_pad 4 (year (time a)) @ ''-'' @ zero_pad 2 (month (time a)) @ ''-'' @
                             zero_pad 2 (day (time a)) @ '' '' @
                             zero_pad 2 (hour (time a)) @ '':'' @ zero_pad 2 (minute (time a)))),
                 (''distance_au'', JNumber (distance a)),
                 (''velocity_km_s'', JNumber (velocity a)),
                 (''neo'', JObject
                    [(''designation'', JString (designation (the (neo a)))),
                     (''name'', case name (the (neo a)) of None \<Rightarrow> JNull | Some s \<Rightarrow> JString s),
                     (''diameter_km'', JNumber (diameter (the (neo a)))),
                     (''potentially_hazardous'', JBool (hazardous (the (neo a))))])]) results))
   \<and> (\<forall>a\<in>set results.
        str_datetime (time a) =
          (zero_pad 4 (year (time a)) @ ''-'' @ zero_pad 2 (month (time a)) @ ''-'' @
           zero_pad 2 (day (time a)) @ '' '' @
           zero_pad 2 (hour (time a)) @ '':'' @ zero_pad 2 (minute (time a))) @
          '':'' @ zero_pad 2 (second (time a)) @
          (if microsecond (time a) = 0 then [] else ''.'' @ zero_pad 6 (microsecond (time a))))"
  unfolding write_to_json_def dict_list_loop_joined[OF assms]
  by (simp add: json_dump_name datetime_to_str_def str_datetime_def)

theorem write_to_json_null_name_witness:
  "write_to_json
     [CloseApproach ''433''
        \<lparr>year = 2020, month = 1, day = 2, hour = 12, minute = 30, second = 0, microsecond = 0\<rparr>
        (Fin (1/2)) (Fin 4) (Some (NearEarthObject ''433'' None NaN False []))]
   = Inr (JArray [JObject [(''datetime_utc'', JString ''2020-01-02 12:30''),
                 (''distance_au'', JNumber (Fin (1/2))),
                 (''velocity_km_s'', JNumber (Fin 4)),
                 (''neo'', JObject
                    [(''designation'', JString ''433''),
                     (''name'', JNull),
                     (''diameter_km'', JNumber NaN),
                     (''potentially_hazardous'', JBool False)])]])
   \<and> str_datetime
       \<lparr>year = 2020, month = 1, day = 2, hour = 12, minute = 30, second = 0, microsecond = 0\<rparr>
     = ''2020-01-02 12:30:00''"
proof -
  let ?a = "CloseApproach ''433''
        \<lparr>year = 2020, month = 1, day = 2, hour = 12, minute = 30, second = 0, microsecond = 0\<rparr>
        (Fin (1/2)) (Fin 4) (Some (NearEarthObject ''433'' None NaN False []))"
  have h: "\<forall>a\<in>set [?a]. neo a \<noteq> None" by simp
  note t = write_to_json_null_name [OF h]
  have p: "write_to_json [?a]
   = Inr (JArray [JObject [(''datetime_utc'', JString ''2020-01-02 12:30''),
                 (''distance_au'', JNumber (Fin (1/2))),
                 (''velocity_km_s'', JNumber (Fin 4)),
                 (''neo'', JObject
                    [(''designation'', JString ''433''),
                     (''name'', JNull),
                     (''diameter_km'', JNumber NaN),
                     (''potentially_hazardous'', JBool False)])]])"
    using t [THEN conjunct1] by (simp add: zero_pad_2 zero_pad_4 digit_def)
  have q: "str_datetime
       \<lparr>year = 2020, month = 1, day = 2, hour = 12, minute = 30, second = 0, microsecond = 0\<rparr>
     = ''2020-01-02 12:30:00''"
    using t [THEN conjunct2] by (simp add: zero_pad_2 zero_pad_4 digit_def)
  from p q show ?thesis by (rule conjI)
qed

lemma call_hazardous_False:
  "neo a = Some n \<Longrightarrow> call (new HazardousFilter Eq (VBool False)) a = Inr (\<not> hazardous n)"
  by (simp add: call_def new_def float_eq_def)

text \<open>
  Claim C3. \<open>create_filters\<close> with only \<open>hazardous = False\<close> returns the single filter that
  compares the hazard flag with \<open>False\<close>; on a catalogue whose approaches carry their
  objects, querying with it keeps exactly the approaches of objects that are not hazardous,
  in order. With \<open>hazardous = None\<close> (and nothing else) it returns no filter, and the query
  returns the whole catalogue. So the two results differ as soon as the catalogue has an
  approach of a hazardous object.
\<close>

theorem hazardous_False_differs_from_None:
  assumes "\<forall>a\<in>set catalog. neo a \<noteq> None"
  shows "create_filters None None None None None None None None None (Some (VBool False))
           = {new HazardousFilter Eq (VBool False)}
       \<and> query (create_filters None None None None None None None None None (Some (VBool False))) catalog
           = filter (\<lambda>a. \<not> hazardous (the (neo a))) catalog
       \<and> create_filters None None None None None None None None None None = {}
       \<and> query (create_filters None None None None None None None None None None) catalog = catalog
       \<and> ((\<exists>a\<in>set catalog. hazardous (the (neo a))) \<longrightarrow>
            query (create_filters None None None None None None None None None (Some (VBool False))) catalog
            \<noteq> query (create_filters None None None None None None None None None None) catalog)"
proof -
  have f: "create_filters None None None None None None None None None (Some (VBool False))
           = {new HazardousFilter Eq (VBool False)}"
    by (simp add: create_filters_def add_if_def)
  have e: "create_filters None None None None None None None None None None = {}"
    by (simp add: create_filters_def add_if_def)
  have q1: "query {new HazardousFilter Eq (VBool False)} catalog
           = filter (\<lambda>a. \<not> hazardous (the (neo a))) catalog"
    unfolding query_def
  proof (rule filter_cong[OF refl])
    fix a assume "a \<in> set catalog"
    with assms obtain n where n: "neo a = Some n" by auto
    show "(\<forall>f\<in>{new HazardousFilter Eq (VBool False)}. call f a = Inr True) = (\<not> hazardous (the (neo a)))"
      by (simp add: call_hazardous_False[OF n] n)
  qed
  have q2: "query {} catalog = catalog" by (simp add: query_def)
  have d: "(\<exists>a\<in>set catalog. hazardous (the (neo a))) \<longrightarrow>
      filter (\<lambda>a. \<not> hazardous (the (neo a))) catalog \<noteq> catalog"
    by (auto simp: filter_id_conv)
  show ?thesis unfolding f e q1 q2 using d by simp
qed

theorem hazardous_False_differs_from_None_witness:
  "query (create_filters None None None None None None None None None (Some (VBool False)))
     [CloseApproach ''433''
        \<lparr>year = 2020, month = 1, day = 2, hour = 12, minute = 30, second = 0, microsecond = 0\<rparr>
        (Fin (1/2)) (Fin 4) (Some (NearEarthObject ''433'' (Some ''Eros'') NaN False [])),
      CloseApproach ''99942''
        \<lparr>year = 2029, month = 4, day = 13, hour = 21, minute = 46, second = 0, microsecond = 0\<rparr>
        (Fin (1/4)) (Fin 8) (Some (NearEarthObject ''99942'' (Some ''Apophis'') NaN True []))]
   = [CloseApproach ''433''
        \<lparr>year = 2020, month = 1, day = 2, hour = 12, minute = 30, second = 0, microsecond = 0\<rparr>
        (Fin (1/2)) (Fin 4) (Some (NearEarthObject ''433'' (Some ''Eros'') NaN False []))]
   \<and> query (create_filters None None None None None None None None None None)
     [CloseApproach ''433''
        \<lparr>year = 2020, month = 1, day = 2, hour = 12, minute = 30, second = 0, microsecond = 0\<rparr>
        (Fin (1/2)) (Fin 4) (Some (NearEarthObject ''433'' (Some ''Eros'') NaN False [])),
      CloseApproach ''99942''
        \<lparr>year = 2029, month = 4, day = 13, hour = 21, minute = 46, second = 0, microsecond = 0\<rparr>
        (Fin (1/4)) (Fin 8) (Some (NearEarthObject ''99942'' (Some ''Apophis'') NaN True []))]
   = [CloseApproach ''433''
        \<lparr>year = 2020, month = 1, day = 2, hour = 12, minute = 30, second = 0, microsecond = 0\<rparr>
        (Fin (1/2)) (Fin 4) (Some (NearEarthObject ''433'' (Some ''Eros'') NaN False [])),
      CloseApproach ''99942''
        \<lparr>year = 2029, month = 4, day = 13, hour = 21, minute = 46, second = 0, microsecond = 0\<rparr>
        (Fin (1/4)) (Fin 8) (Some (NearEarthObject ''99942'' (Some ''Apophis'') NaN True []))]"
proof -
  let ?a = "CloseApproach ''433''
        \<lparr>year = 2020, month = 1, day = 2, hour = 12, minute = 30, second = 0, microsecond = 0\<rparr>
        (Fin (1/2)) (Fin 4) (Some (NearEarthObject ''433'' (Some ''Eros'') NaN False []))"
  let ?b = "CloseApproach ''99942''
        \<lparr>year = 2029, month = 4, day = 13, hour = 21, minute = 46, second = 0, microsecond = 0\<rparr>
        (Fin (1/4)) (Fin 8) (Some (NearEarthObject ''99942'' (Some ''Apophis'') NaN True []))"
  have h: "\<forall>a\<in>set [?a, ?b]. neo a \<noteq> None" by simp
  note t = hazardous_False_differs_from_None [OF h]
  have p: "query (create_filters None None None None None None None None None (Some (VBool False)))
             [?a, ?b] = [?a]"
    using t [THEN conjunct2, THEN conjunct1] by simp
  have q: "query (create_filters None None None None None None None None None None) [?a, ?b]
             = [?a, ?b]"
    using t [THEN conjunct2, THEN conjunct2, THEN conjunct2, THEN conjunct1] .
  from p q show ?thesis by (rule conjI)
qed

end
